theory Spec2Isabelle
  imports Main
begin

section \<open>Python values, dictionaries and exceptions\<close>

text \<open>
  The two handlers (\<open>FrappeHandler\<close> in \<open>frappe_handler.py\<close>, \<open>RocketChatHandler\<close> in
  \<open>rocket_chat_handler.py\<close>) move Python values between a configuration mapping, the
  handler object and a vendor client. Values are the JSON-shaped Python objects; a
  dictionary is an association list whose first binding of a key is the one looked up.
\<close>

datatype pyval =
    PNone
  | PBool bool
  | PInt int
  | PStr string
  | PList "pyval list"
  | PDict "(string \<times> pyval) list"

type_synonym pydict = "(string \<times> pyval) list"

text \<open>
  Exceptions are values. \<open>OtherError\<close> is any other class deriving from \<open>Exception\<close> (an
  HTTP error, a connection error, a JSON decoding error, a runtime error);
  \<open>BaseExceptionOnly\<close> is a class deriving from \<open>BaseException\<close> but not from \<open>Exception\<close>
  (\<open>KeyboardInterrupt\<close>, \<open>SystemExit\<close>). The clause \<open>except Exception as e\<close> of both
  \<open>check_connection\<close> methods catches the former and lets the latter pass.
\<close>

datatype exn =
    ValueError string
  | NotImplementedError string
  | KeyError string
  | TypeError string
  | AttributeError string
  | OtherError string
  | BaseExceptionOnly string


text \<open>Python's truth value of an object, as \<open>if x\<close> and \<open>x and y\<close> test it.\<close>

fun truthy :: "pyval \<Rightarrow> bool" where
  "truthy PNone = False"
| "truthy (PBool b) = b"
| "truthy (PInt i) = (i \<noteq> 0)"
| "truthy (PStr s) = (s \<noteq> [])"
| "truthy (PList xs) = (xs \<noteq> [])"
| "truthy (PDict d) = (d \<noteq> [])"

text \<open>\<open>k in d\<close> and \<open>d[k]\<close> on a dictionary.\<close>

definition has_key :: "pydict \<Rightarrow> string \<Rightarrow> bool" where
  "has_key d k = (map_of d k \<noteq> None)"

text \<open>
  \<open>params[k]\<close> with a string key \<open>k\<close>, on any value: a dictionary is looked up and
  raises \<open>KeyError\<close> on a missing key; every other value (\<open>None\<close>, a number, a string or a
  list indexed by a string) raises \<open>TypeError\<close>.
\<close>

fun subscript :: "pyval \<Rightarrow> string \<Rightarrow> exn + pyval" where
  "subscript (PDict d) k = (case map_of d k of None \<Rightarrow> Inl (KeyError k) | Some v \<Rightarrow> Inr v)"
| "subscript v k = Inl (TypeError ''object is not subscriptable by a string key'')"

text \<open>
  \<open>k in params\<close> for a string \<open>k\<close>: key membership on a dictionary. The handlers evaluate it
  only after \<open>params['doctype']\<close> has returned, so \<open>params\<close> is a dictionary there; the
  other cases are written out all the same (element test on a list, substring test on a
  string, \<open>TypeError\<close> otherwise).
\<close>

fun is_infix :: "string \<Rightarrow> string \<Rightarrow> bool" where
  "is_infix k [] = (k = [])"
| "is_infix k (c # cs) = (take (length k) (c # cs) = k \<or> is_infix k cs)"

fun contains :: "pyval \<Rightarrow> string \<Rightarrow> exn + bool" where
  "contains (PDict d) k = Inr (has_key d k)"
| "contains (PList xs) k = Inr (PStr k \<in> set xs)"
| "contains (PStr s) k = Inr (is_infix k s)"
| "contains v k = Inl (TypeError ''argument is not iterable'')"

section \<open>The document adapter: FrappeHandler\<close>

subsection \<open>The world outside the handler\<close>

text \<open>
  Every call that leaves the handler is appended to a call log: the construction of a
  \<open>FrappeClient\<close> and each method called on one. The log is the observable of "a network
  call was made", and it records the arguments each call was made with. A client object is
  identified by the position of its construction in the log, so two constructions never
  give the same object.
\<close>

datatype frappe_call =
    FrappeClient_new pyval pyval
  | Client_ping nat
  | Client_get_document nat pyval pyval
  | Client_get_documents nat pyval pyval pyval
  | Client_post_document nat pyval pyval

text \<open>
  \<open>FrappeClient\<close> (module \<open>frappe_client\<close>) and the \<open>json\<close> module are not part of the two
  source files: what they answer is a parameter of every handler method. An answer may
  depend on the whole history of calls; \<open>Inl e\<close> (for the constructor, \<open>Some e\<close>) is the
  call raising \<open>e\<close>.
\<close>

record frappe_env =
  FrappeClient :: "frappe_call list \<Rightarrow> pyval \<Rightarrow> pyval \<Rightarrow> exn option"
  ping :: "frappe_call list \<Rightarrow> nat \<Rightarrow> exn + pyval"
  get_document :: "frappe_call list \<Rightarrow> nat \<Rightarrow> pyval \<Rightarrow> pyval \<Rightarrow> exn + pyval"
  get_documents :: "frappe_call list \<Rightarrow> nat \<Rightarrow> pyval \<Rightarrow> pyval \<Rightarrow> pyval \<Rightarrow> exn + pyval list"
  post_document :: "frappe_call list \<Rightarrow> nat \<Rightarrow> pyval \<Rightarrow> pyval \<Rightarrow> exn + pyval"
  json_loads :: "pyval \<Rightarrow> exn + pyval"
  json_dumps :: "pyval \<Rightarrow> string"

subsection \<open>The handler object\<close>

text \<open>
  The attributes \<open>__init__\<close> assigns; \<open>client\<close> is \<open>None\<close> or a client object.

  Modelled from the spec: the base class \<open>APIHandler\<close> is not among the source files.
  Its state is \<open>name\<close>, the name given to \<open>super().__init__\<close>, and \<open>tables\<close>, the
  table names passed to \<open>_register_table\<close> in order ("association between a table name
  and a table-adapter instance", "created once at handler construction").
\<close>

record FrappeHandler =
  name :: "string option"
  client :: "nat option"
  is_connected :: bool
  access_token :: pyval
  domain :: pyval
  tables :: "string list"


text \<open>A data frame built by \<open>pd.DataFrame.from_records\<close> is the list of its rows.\<close>

type_synonym row = "(string \<times> pyval) list"
type_synonym dataframe = "row list"

text \<open>
  A method of the handler takes the handler object and the call log and returns what it
  returns or raises, together with the object and the log as it leaves them: an assignment
  to \<open>self\<close> made before an exception is raised stays made.
\<close>

type_synonym 'a frappe_result = "(exn + 'a) \<times> FrappeHandler \<times> frappe_call list"

subsection \<open>Construction\<close>

text \<open>
  \<open>FrappeHandler.__init__(name, **kwargs)\<close>. The argument \<open>connection_data\<close> is
  \<open>kwargs.get('connection_data')\<close>: \<open>None\<close> when the key is absent, and then \<open>args\<close> is
  the empty dictionary.
\<close>

definition FrappeHandler_init ::
  "string option \<Rightarrow> pydict option \<Rightarrow> frappe_call list \<Rightarrow> (exn + FrappeHandler) \<times> frappe_call list"
where
  \<open>FrappeHandler_init nm connection_data w =
    (let args = (case connection_data of None \<Rightarrow> [] | Some d \<Rightarrow> d) in
     case map_of args ''access_token'' of
       None \<Rightarrow> (Inl (ValueError ''"access_token" parameter required for authentication''), w)
     | Some tok \<Rightarrow>
         (case map_of args ''domain'' of
            None \<Rightarrow>
              (Inl (ValueError
                 ''"domain" parameter required to connect to your Frappe instance''), w)
          | Some dmn \<Rightarrow>
              (Inr \<lparr> name = nm, client = None, is_connected = False,
                     access_token = tok, domain = dmn, tables = [''documents''] \<rparr>, w)))\<close>

subsection \<open>connect and check_connection\<close>

text \<open>
  \<open>connect\<close>. The test \<open>self.client\<close> is the truth value of the attribute: \<open>None\<close> is
  false and a client object, which defines no truth value of its own, is true. The
  constructor \<open>FrappeClient(domain, access_token)\<close> may raise; the assignments after it
  are then not reached.
\<close>

definition FrappeHandler_connect ::
  "frappe_env \<Rightarrow> FrappeHandler \<Rightarrow> frappe_call list \<Rightarrow> (nat option) frappe_result"
where
  "FrappeHandler_connect env h w =
    (if is_connected h = True \<and> client h \<noteq> None then (Inr (client h), h, w)
     else if truthy (domain h) \<and> truthy (access_token h) then
       (case FrappeClient env w (domain h) (access_token h) of
          Some e \<Rightarrow> (Inl e, h, w @ [FrappeClient_new (domain h) (access_token h)])
        | None \<Rightarrow>
            (Inr (Some (length w)),
             h\<lparr>client := Some (length w), is_connected := True\<rparr>,
             w @ [FrappeClient_new (domain h) (access_token h)]))
     else (Inr (client h), h\<lparr>is_connected := True\<rparr>, w))"



subsection \<open>The dispatch operations\<close>

definition document_to_dataframe_row :: "frappe_env \<Rightarrow> pyval \<Rightarrow> pyval \<Rightarrow> row" where
  "document_to_dataframe_row env doctype document =
     [(''doctype'', doctype), (''data'', PStr (json_dumps env document))]"

text \<open>
  The idiom \<open>x = None; if k in params: x = params[k]\<close> of \<open>_get_documents\<close>.
\<close>

definition param_or_None :: "pyval \<Rightarrow> string \<Rightarrow> exn + pyval" where
  "param_or_None params k =
     (case contains params k of
        Inl e \<Rightarrow> Inl e
      | Inr b \<Rightarrow> (if b then subscript params k else Inr PNone))"

text \<open>
  In each operation \<open>connect\<close> runs first, then \<open>params['doctype']\<close>; the attribute
  lookup \<open>client.get_document\<close> (which raises \<open>AttributeError\<close> on \<open>None\<close>) comes before
  the evaluation of the call's arguments, as Python orders it.
\<close>

definition FrappeHandler_get_document ::
  "frappe_env \<Rightarrow> FrappeHandler \<Rightarrow> frappe_call list \<Rightarrow> pyval \<Rightarrow> dataframe frappe_result"
where
  "FrappeHandler_get_document env h w params =
    (case FrappeHandler_connect env h w of
       (Inl e, h1, w1) \<Rightarrow> (Inl e, h1, w1)
     | (Inr cl, h1, w1) \<Rightarrow>
        (case subscript params ''doctype'' of
           Inl e \<Rightarrow> (Inl e, h1, w1)
         | Inr doctype \<Rightarrow>
            (case cl of
               None \<Rightarrow>
                 (Inl (AttributeError ''NoneType object has no attribute get_document''), h1, w1)
             | Some c \<Rightarrow>
                (case subscript params ''name'' of
                   Inl e \<Rightarrow> (Inl e, h1, w1)
                 | Inr nm \<Rightarrow>
                    (case get_document env w1 c doctype nm of
                       Inl e \<Rightarrow> (Inl e, h1, w1 @ [Client_get_document c doctype nm])
                     | Inr document \<Rightarrow>
                         (Inr [document_to_dataframe_row env doctype document],
                          h1, w1 @ [Client_get_document c doctype nm]))))))"

definition FrappeHandler_get_documents ::
  "frappe_env \<Rightarrow> FrappeHandler \<Rightarrow> frappe_call list \<Rightarrow> pyval \<Rightarrow> dataframe frappe_result"
where
  "FrappeHandler_get_documents env h w params =
    (case FrappeHandler_connect env h w of
       (Inl e, h1, w1) \<Rightarrow> (Inl e, h1, w1)
     | (Inr cl, h1, w1) \<Rightarrow>
        (case subscript params ''doctype'' of
           Inl e \<Rightarrow> (Inl e, h1, w1)
         | Inr doctype \<Rightarrow>
            (case param_or_None params ''limit'' of
               Inl e \<Rightarrow> (Inl e, h1, w1)
             | Inr limit \<Rightarrow>
                (case param_or_None params ''filters'' of
                   Inl e \<Rightarrow> (Inl e, h1, w1)
                 | Inr filters \<Rightarrow>
                    (case cl of
                       None \<Rightarrow>
                         (Inl (AttributeError
                            ''NoneType object has no attribute get_documents''), h1, w1)
                     | Some c \<Rightarrow>
                        (case get_documents env w1 c doctype limit filters of
                           Inl e \<Rightarrow>
                             (Inl e, h1, w1 @ [Client_get_documents c doctype limit filters])
                         | Inr documents \<Rightarrow>
                             (Inr (map (document_to_dataframe_row env doctype) documents),
                              h1, w1 @ [Client_get_documents c doctype limit filters])))))))"

definition FrappeHandler_create_document ::
  "frappe_env \<Rightarrow> FrappeHandler \<Rightarrow> frappe_call list \<Rightarrow> pyval \<Rightarrow> dataframe frappe_result"
where
  "FrappeHandler_create_document env h w params =
    (case FrappeHandler_connect env h w of
       (Inl e, h1, w1) \<Rightarrow> (Inl e, h1, w1)
     | (Inr cl, h1, w1) \<Rightarrow>
        (case subscript params ''doctype'' of
           Inl e \<Rightarrow> (Inl e, h1, w1)
         | Inr doctype \<Rightarrow>
            (case cl of
               None \<Rightarrow>
                 (Inl (AttributeError ''NoneType object has no attribute post_document''), h1, w1)
             | Some c \<Rightarrow>
                (case subscript params ''data'' of
                   Inl e \<Rightarrow> (Inl e, h1, w1)
                 | Inr s \<Rightarrow>
                    (case json_loads env s of
                       Inl e \<Rightarrow> (Inl e, h1, w1)
                     | Inr obj \<Rightarrow>
                        (case post_document env w1 c doctype obj of
                           Inl e \<Rightarrow> (Inl e, h1, w1 @ [Client_post_document c doctype obj])
                         | Inr new_document \<Rightarrow>
                             (Inr [document_to_dataframe_row env doctype new_document],
                              h1, w1 @ [Client_post_document c doctype obj])))))))"

text \<open>
  \<open>call_frappe_api(method_name=None, params=None)\<close>. The message is built by
  \<open>str.format\<close>, which writes \<open>None\<close> as \<open>None\<close>.
\<close>

definition call_frappe_api ::
  "frappe_env \<Rightarrow> FrappeHandler \<Rightarrow> frappe_call list \<Rightarrow> string option \<Rightarrow> pyval
     \<Rightarrow> dataframe frappe_result"
where
  "call_frappe_api env h w method_name params =
    (if method_name = Some ''get_documents'' then FrappeHandler_get_documents env h w params
     else if method_name = Some ''get_document'' then FrappeHandler_get_document env h w params
     else if method_name = Some ''create_document'' then
       FrappeHandler_create_document env h w params
     else
       (Inl (NotImplementedError
          (''Method name '' @ (case method_name of None \<Rightarrow> ''None'' | Some m \<Rightarrow> m)
            @ '' not supported by Frappe API Handler'')), h, w))"

text \<open>
  \<open>claim_expense(data)\<close> is \<open>self.call_frappe_api('create_document', **data)\<close>: the
  entries of \<open>data\<close> are passed as keyword arguments. Python binds them to the signature
  \<open>(method_name, params)\<close> in order: the keyword \<open>method_name\<close> is already bound by the
  positional argument, any keyword other than \<open>params\<close> is unknown, and both raise
  \<open>TypeError\<close> before the body of \<open>call_frappe_api\<close> runs. \<open>params\<close> is the value of the
  keyword \<open>params\<close>, or the default \<open>None\<close>. The method has no \<open>return\<close>.
\<close>

definition claim_expense ::
  "frappe_env \<Rightarrow> FrappeHandler \<Rightarrow> frappe_call list \<Rightarrow> pydict \<Rightarrow> unit frappe_result"
where
  "claim_expense env h w data =
    (case filter (\<lambda>k. k \<noteq> ''params'') (map fst data) of
       k # ks \<Rightarrow>
         (if k = ''method_name'' then
            (Inl (TypeError
               ''call_frappe_api() got multiple values for argument method_name''), h, w)
          else
            (Inl (TypeError
               (''call_frappe_api() got an unexpected keyword argument '' @ k)), h, w))
     | [] \<Rightarrow>
         (case call_frappe_api env h w (Some ''create_document'')
                 (case map_of data ''params'' of None \<Rightarrow> PNone | Some p \<Rightarrow> p) of
            (Inl e, h1, w1) \<Rightarrow> (Inl e, h1, w1)
          | (Inr df, h1, w1) \<Rightarrow> (Inr (), h1, w1)))"

section \<open>The chat adapter: RocketChatHandler\<close>

subsection \<open>The world outside the handler\<close>

text \<open>
  The calls that leave the chat handler: the construction
  \<open>RocketChat(user, password, auth_token, user_id, server_url)\<close> and a method of the client
  called by name with positional and keyword arguments.
\<close>

datatype rocket_call =
    RocketChat_new pyval pyval pyval pyval pyval
  | Client_call nat string "pyval list" pydict

text \<open>
  What \<open>call_api\<close> reads of the response object a client method returns: the attribute
  \<open>ok\<close>, what \<open>raise_for_status()\<close> does (\<open>Some e\<close>: it raises \<open>e\<close>; \<open>None\<close>: it returns) and
  what \<open>json()\<close> does.
\<close>

record response =
  ok :: bool
  raise_for_status :: "exn option"
  json :: "exn + pyval"

text \<open>
  The class \<open>RocketChat\<close> (package \<open>rocketchat_API\<close>) is a parameter: whether its
  constructor raises, which attribute names resolve on a client (\<open>getattr\<close>), and what
  a method called by name answers.
\<close>

record rocket_env =
  RocketChat :: "rocket_call list \<Rightarrow> pyval \<Rightarrow> pyval \<Rightarrow> pyval \<Rightarrow> pyval \<Rightarrow> pyval \<Rightarrow> exn option"
  resolves :: "string \<Rightarrow> bool"
  call_method :: "rocket_call list \<Rightarrow> nat \<Rightarrow> string \<Rightarrow> pyval list \<Rightarrow> pydict \<Rightarrow> exn + response"

subsection \<open>The handler object\<close>

text \<open>
  The attributes of \<open>RocketChatHandler\<close>. The attributes \<open>domain\<close>, \<open>client\<close> and
  \<open>is_connected\<close>, and the base-class state \<open>name\<close> and \<open>tables\<close>, carry the prefix \<open>rc_\<close>
  to tell them from those of the document adapter.
\<close>

record RocketChatHandler =
  rc_name :: "string option"
  username :: pyval
  password :: pyval
  auth_token :: pyval
  auth_user_id :: pyval
  rc_domain :: pyval
  rc_client :: "nat option"
  rc_is_connected :: bool
  rc_tables :: "string list"

type_synonym 'a rocket_result = "(exn + 'a) \<times> RocketChatHandler \<times> rocket_call list"

subsection \<open>Construction\<close>

definition RocketChatHandler_init ::
  "string option \<Rightarrow> pydict option \<Rightarrow> rocket_call list
     \<Rightarrow> (exn + RocketChatHandler) \<times> rocket_call list"
where
  \<open>RocketChatHandler_init nm connection_data w =
    (let args = (case connection_data of None \<Rightarrow> [] | Some d \<Rightarrow> d);
         registered = [''channels'', ''channel_messages'', ''directs'', ''direct_messages'']
     in
     case map_of args ''domain'' of
       None \<Rightarrow>
         (Inl (ValueError ''Must include Rocket Chat "domain" to read and write messages''), w)
     | Some dmn \<Rightarrow>
         (if has_key args ''token'' \<and> has_key args ''user_id'' then
            (Inr \<lparr> rc_name = nm, username = PNone, password = PNone,
                   auth_token = the (map_of args ''token''),
                   auth_user_id = the (map_of args ''user_id''),
                   rc_domain = dmn, rc_client = None, rc_is_connected = False,
                   rc_tables = registered \<rparr>, w)
          else if has_key args ''username'' \<and> has_key args ''password'' then
            (Inr \<lparr> rc_name = nm,
                   username = the (map_of args ''username''),
                   password = the (map_of args ''password''),
                   auth_token = PNone, auth_user_id = PNone,
                   rc_domain = dmn, rc_client = None, rc_is_connected = False,
                   rc_tables = registered \<rparr>, w)
          else
            (Inl (ValueError
               ''Need "token" and "user_id", or "username" and "password" to connect to Rocket Chat''),
             w)))\<close>

subsection \<open>connect and check_connection\<close>

definition RocketChatHandler_connect ::
  "rocket_env \<Rightarrow> RocketChatHandler \<Rightarrow> rocket_call list \<Rightarrow> nat rocket_result"
where
  "RocketChatHandler_connect env h w =
    (if rc_is_connected h \<and> rc_client h \<noteq> None then (Inr (the (rc_client h)), h, w)
     else
       (let c = RocketChat_new (username h) (password h) (auth_token h) (auth_user_id h)
                  (rc_domain h)
        in case RocketChat env w (username h) (password h) (auth_token h) (auth_user_id h)
                  (rc_domain h) of
             Some e \<Rightarrow> (Inl e, h, w @ [c])
           | None \<Rightarrow>
               (Inr (length w), h\<lparr>rc_client := Some (length w), rc_is_connected := True\<rparr>,
                w @ [c])))"


subsection \<open>call_api\<close>

text \<open>
  \<open>call_api(method_name=None, *args, **kwargs)\<close>: \<open>connect\<close>, then
  \<open>getattr(client, method_name)\<close> (\<open>TypeError\<close> when the name is \<open>None\<close>, \<open>AttributeError\<close>
  when it does not resolve), the call, and the test of \<open>ok\<close>. When \<open>ok\<close> is false and
  \<open>raise_for_status()\<close> returns, the method goes on to \<open>json()\<close>, as it does when \<open>ok\<close> is
  true.
\<close>

definition call_api ::
  "rocket_env \<Rightarrow> RocketChatHandler \<Rightarrow> rocket_call list \<Rightarrow> string option \<Rightarrow> pyval list
     \<Rightarrow> pydict \<Rightarrow> pyval rocket_result"
where
  "call_api env h w method_name args kwargs =
    (case RocketChatHandler_connect env h w of
       (Inl e, h1, w1) \<Rightarrow> (Inl e, h1, w1)
     | (Inr c, h1, w1) \<Rightarrow>
        (case method_name of
           None \<Rightarrow> (Inl (TypeError ''attribute name must be string''), h1, w1)
         | Some m \<Rightarrow>
            (if \<not> resolves env m then
               (Inl (AttributeError (''RocketChat object has no attribute '' @ m)), h1, w1)
             else
               (case call_method env w1 c m args kwargs of
                  Inl e \<Rightarrow> (Inl e, h1, w1 @ [Client_call c m args kwargs])
                | Inr messages_response \<Rightarrow>
                   (if \<not> ok messages_response then
                      (case raise_for_status messages_response of
                         Some e \<Rightarrow> (Inl e, h1, w1 @ [Client_call c m args kwargs])
                       | None \<Rightarrow>
                           (json messages_response, h1, w1 @ [Client_call c m args kwargs]))
                    else (json messages_response, h1, w1 @ [Client_call c m args kwargs]))))))"

section \<open>Concrete collaborators\<close>

text \<open>
  Stub collaborators with which the properties below are instantiated. The JSON stub is a
  table over the two documents the stub client handles; the stub server adds the field
  \<open>name\<close> to a posted document. In the unreachable variant every request raises a
  connection error.
\<close>

definition stub_json_loads :: "pyval \<Rightarrow> exn + pyval" where
  "stub_json_loads v =
    (if v = PStr ''{\"company\": \"CloudE8\"}'' then Inr (PDict [(''company'', PStr ''CloudE8'')])
     else if v = PStr ''{\"company\": \"CloudE8\", \"name\": \"EXP-0001\"}'' then
       Inr (PDict [(''company'', PStr ''CloudE8''), (''name'', PStr ''EXP-0001'')])
     else Inl (OtherError ''JSONDecodeError''))"

definition stub_json_dumps :: "pyval \<Rightarrow> string" where
  "stub_json_dumps v =
    (if v = PDict [(''company'', PStr ''CloudE8'')] then ''{\"company\": \"CloudE8\"}''
     else if v = PDict [(''company'', PStr ''CloudE8''), (''name'', PStr ''EXP-0001'')] then
       ''{\"company\": \"CloudE8\", \"name\": \"EXP-0001\"}''
     else ''null'')"

definition stub_frappe_env :: frappe_env where
  "stub_frappe_env =
    \<lparr> FrappeClient = (\<lambda>w d t. None),
      ping = (\<lambda>w c. Inr (PBool True)),
      get_document = (\<lambda>w c doctype nm. Inr (PDict [(''company'', PStr ''CloudE8''), (''name'', nm)])),
      get_documents = (\<lambda>w c doctype limit filters.
        Inr [PDict [(''company'', PStr ''CloudE8'')],
             PDict [(''company'', PStr ''CloudE8''), (''name'', PStr ''EXP-0001'')] ]),
      post_document = (\<lambda>w c doctype obj.
        case obj of PDict d \<Rightarrow> Inr (PDict (d @ [(''name'', PStr ''EXP-0001'')]))
                  | _ \<Rightarrow> Inl (OtherError ''HTTPError'')),
      json_loads = stub_json_loads,
      json_dumps = stub_json_dumps \<rparr>"


definition stub_frappe_handler :: FrappeHandler where
  "stub_frappe_handler =
    \<lparr> name = Some ''frappe'', client = None, is_connected = False,
      access_token = PStr ''t'', domain = PStr ''https://x.example'',
      tables = [''documents''] \<rparr>"

definition stub_rocket_env :: rocket_env where
  "stub_rocket_env =
    \<lparr> RocketChat = (\<lambda>w u p t i d. None),
      resolves = (\<lambda>m. m \<in> set [''me'', ''channels_list'', ''chat_post_message'']),
      call_method = (\<lambda>w c m args kwargs.
        if m = ''me'' then
          Inr \<lparr> ok = True, raise_for_status = None,
                json = Inr (PDict [(''username'', PStr ''bot'')]) \<rparr>
        else
          Inr \<lparr> ok = False, raise_for_status = Some (OtherError ''HTTPError''),
                json = Inr (PDict [(''success'', PBool False)]) \<rparr>) \<rparr>"


definition stub_rocket_handler :: RocketChatHandler where
  "stub_rocket_handler =
    \<lparr> rc_name = Some ''rocket'', username = PNone, password = PNone,
      auth_token = PStr ''t'', auth_user_id = PStr ''u'',
      rc_domain = PStr ''https://x.example'', rc_client = None, rc_is_connected = False,
      rc_tables = [''channels'', ''channel_messages'', ''directs'', ''direct_messages''] \<rparr>"





section \<open>Properties\<close>

lemma has_key_Some: "has_key d k \<longleftrightarrow> (\<exists>v. map_of d k = Some v)"
  by (simp add: has_key_def)

text \<open>The first \<open>connect\<close> of the stub handlers constructs client \<open>0\<close>.\<close>

lemma stub_connect:
  "FrappeHandler_connect stub_frappe_env stub_frappe_handler []
      = (Inr (Some 0), stub_frappe_handler\<lparr>client := Some 0, is_connected := True\<rparr>,
         [FrappeClient_new (PStr ''https://x.example'') (PStr ''t'')])"
  by (simp add: FrappeHandler_connect_def stub_frappe_env_def stub_frappe_handler_def)

lemma stub_rocket_connect:
  "RocketChatHandler_connect stub_rocket_env stub_rocket_handler []
      = (Inr 0, stub_rocket_handler\<lparr>rc_client := Some 0, rc_is_connected := True\<rparr>,
         [RocketChat_new PNone PNone (PStr ''t'') (PStr ''u'') (PStr ''https://x.example'')])"
  by (simp add: RocketChatHandler_connect_def stub_rocket_env_def stub_rocket_handler_def)

subsection \<open>Construction validates the configuration\<close>

text \<open>
  Claim C1. For every connection-data mapping that misses a required key, construction
  raises \<open>ValueError\<close> and the call log is returned as it was (no client is constructed, no
  request is sent); with the required keys present construction returns a handler. The
  document adapter requires \<open>access_token\<close> and \<open>domain\<close>; the chat adapter requires
  \<open>domain\<close> and one complete pair, \<open>token\<close> with \<open>user_id\<close> or \<open>username\<close> with
  \<open>password\<close>. An absent \<open>connection_data\<close> is the empty mapping.
\<close>

theorem construction_requires_keys:
  "(\<not> has_key fargs ''access_token'' \<or> \<not> has_key fargs ''domain'' \<longrightarrow>
      (\<exists>msg. FrappeHandler_init nm (Some fargs) w = (Inl (ValueError msg), w)))
   \<and> (has_key fargs ''access_token'' \<and> has_key fargs ''domain'' \<longrightarrow>
      (\<exists>h. FrappeHandler_init nm (Some fargs) w = (Inr h, w)))
   \<and> (\<exists>msg. FrappeHandler_init nm None w = (Inl (ValueError msg), w))
   \<and> (\<not> has_key rargs ''domain'' \<or>
        (\<not> (has_key rargs ''token'' \<and> has_key rargs ''user_id'') \<and>
         \<not> (has_key rargs ''username'' \<and> has_key rargs ''password'')) \<longrightarrow>
      (\<exists>msg. RocketChatHandler_init nm (Some rargs) v = (Inl (ValueError msg), v)))
   \<and> (has_key rargs ''domain'' \<and>
        ((has_key rargs ''token'' \<and> has_key rargs ''user_id'') \<or>
         (has_key rargs ''username'' \<and> has_key rargs ''password'')) \<longrightarrow>
      (\<exists>g. RocketChatHandler_init nm (Some rargs) v = (Inr g, v)))
   \<and> (\<exists>msg. RocketChatHandler_init nm None v = (Inl (ValueError msg), v))"
  by (auto simp: FrappeHandler_init_def RocketChatHandler_init_def has_key_Some Let_def
           split: option.splits)

theorem construction_requires_keys_witness:
  "FrappeHandler_init None (Some [(''domain'', PStr ''https://x.example'')]) []
     = (Inl (ValueError ''\"access_token\" parameter required for authentication''), [])
   \<and> (\<exists>h. FrappeHandler_init None
        (Some [(''domain'', PStr ''https://x.example''), (''access_token'', PStr ''t'')]) []
          = (Inr h, []))
   \<and> (\<exists>msg. RocketChatHandler_init None
        (Some [(''domain'', PStr ''https://x.example''), (''token'', PStr ''t'')]) []
          = (Inl (ValueError msg), []))
   \<and> (\<exists>g. RocketChatHandler_init None
        (Some [(''domain'', PStr ''https://x.example''), (''username'', PStr ''u''),
               (''password'', PStr ''p'')]) [] = (Inr g, []))"
  using construction_requires_keys
          [of "[(''domain'', PStr ''https://x.example'')]" None "[]"
              "[(''domain'', PStr ''https://x.example''), (''token'', PStr ''t'')]" "[]"]
        construction_requires_keys
          [of "[(''domain'', PStr ''https://x.example''), (''access_token'', PStr ''t'')]" None "[]"
              "[(''domain'', PStr ''https://x.example''), (''username'', PStr ''u''),
               (''password'', PStr ''p'')]" "[]"]
  by (simp add: has_key_def FrappeHandler_init_def)

subsection \<open>The closed dispatch of the document adapter\<close>

text \<open>
  Claim C3. For every method name outside \<open>get_document\<close>, \<open>get_documents\<close> and
  \<open>create_document\<close> (the default \<open>None\<close> included), \<open>call_frappe_api\<close> raises
  \<open>NotImplementedError\<close> and returns the handler object and the call log as they were, so
  \<open>connect\<close> did not run and no call left the handler. Each of the three names runs its
  operation.
\<close>

theorem dispatch_closed:
  "(m \<notin> {Some ''get_document'', Some ''get_documents'', Some ''create_document''} \<longrightarrow>
      (\<exists>msg. call_frappe_api env h w m params = (Inl (NotImplementedError msg), h, w)))
   \<and> call_frappe_api env h w (Some ''get_document'') params
        = FrappeHandler_get_document env h w params
   \<and> call_frappe_api env h w (Some ''get_documents'') params
        = FrappeHandler_get_documents env h w params
   \<and> call_frappe_api env h w (Some ''create_document'') params
        = FrappeHandler_create_document env h w params"
  by (simp add: call_frappe_api_def)

theorem dispatch_closed_witness:
  "call_frappe_api stub_frappe_env stub_frappe_handler [] (Some ''delete_document'')
       (PDict [(''doctype'', PStr ''Expense Claim'')])
     = (Inl (NotImplementedError
         ''Method name delete_document not supported by Frappe API Handler''),
        stub_frappe_handler, [])"
  using dispatch_closed [of "Some ''delete_document''" stub_frappe_env stub_frappe_handler "[]"
          "PDict [(''doctype'', PStr ''Expense Claim'')]"]
  by (simp add: call_frappe_api_def)

subsection \<open>check_connection\<close>




subsection \<open>connect is memoized\<close>

text \<open>
  Claim C5. For both adapters, when \<open>connect\<close> has returned without raising, the next
  \<open>connect\<close> returns the same client and leaves the handler object and the call log as
  they were: no second client is constructed. The state after the first call is a fixed
  point, so the same holds for every later call.
\<close>

theorem connect_memoized:
  "(FrappeHandler_connect env h w = (Inr r, h1, w1) \<longrightarrow>
      FrappeHandler_connect env h1 w1 = (Inr r, h1, w1))
   \<and> (RocketChatHandler_connect renv g v = (Inr c, g1, v1) \<longrightarrow>
      RocketChatHandler_connect renv g1 v1 = (Inr c, g1, v1))"
proof
  show "FrappeHandler_connect env h w = (Inr r, h1, w1) \<longrightarrow>
      FrappeHandler_connect env h1 w1 = (Inr r, h1, w1)"
    by (auto simp: FrappeHandler_connect_def split: if_splits option.splits)
next
  show "RocketChatHandler_connect renv g v = (Inr c, g1, v1) \<longrightarrow>
      RocketChatHandler_connect renv g1 v1 = (Inr c, g1, v1)"
    by (auto simp: RocketChatHandler_connect_def Let_def split: if_splits option.splits)
qed

theorem connect_memoized_witness:
  "FrappeHandler_connect stub_frappe_env stub_frappe_handler []
      = (Inr (Some 0), stub_frappe_handler\<lparr>client := Some 0, is_connected := True\<rparr>,
         [FrappeClient_new (PStr ''https://x.example'') (PStr ''t'')])
   \<and> FrappeHandler_connect stub_frappe_env
        (stub_frappe_handler\<lparr>client := Some 0, is_connected := True\<rparr>)
        [FrappeClient_new (PStr ''https://x.example'') (PStr ''t'')]
      = (Inr (Some 0), stub_frappe_handler\<lparr>client := Some 0, is_connected := True\<rparr>,
         [FrappeClient_new (PStr ''https://x.example'') (PStr ''t'')])
   \<and> RocketChatHandler_connect stub_rocket_env stub_rocket_handler []
      = (Inr 0, stub_rocket_handler\<lparr>rc_client := Some 0, rc_is_connected := True\<rparr>,
         [RocketChat_new PNone PNone (PStr ''t'') (PStr ''u'') (PStr ''https://x.example'')])
   \<and> RocketChatHandler_connect stub_rocket_env
        (stub_rocket_handler\<lparr>rc_client := Some 0, rc_is_connected := True\<rparr>)
        [RocketChat_new PNone PNone (PStr ''t'') (PStr ''u'') (PStr ''https://x.example'')]
      = (Inr 0, stub_rocket_handler\<lparr>rc_client := Some 0, rc_is_connected := True\<rparr>,
         [RocketChat_new PNone PNone (PStr ''t'') (PStr ''u'') (PStr ''https://x.example'')])"
proof -
  have f: "FrappeHandler_connect stub_frappe_env stub_frappe_handler []
      = (Inr (Some 0), stub_frappe_handler\<lparr>client := Some 0, is_connected := True\<rparr>,
         [FrappeClient_new (PStr ''https://x.example'') (PStr ''t'')])"
    by (simp add: FrappeHandler_connect_def stub_frappe_env_def stub_frappe_handler_def)
  have r: "RocketChatHandler_connect stub_rocket_env stub_rocket_handler []
      = (Inr 0, stub_rocket_handler\<lparr>rc_client := Some 0, rc_is_connected := True\<rparr>,
         [RocketChat_new PNone PNone (PStr ''t'') (PStr ''u'') (PStr ''https://x.example'')])"
    by (simp add: RocketChatHandler_connect_def stub_rocket_env_def stub_rocket_handler_def)
  from f r connect_memoized
    [of stub_frappe_env stub_frappe_handler "[]" "Some 0"
        "stub_frappe_handler\<lparr>client := Some 0, is_connected := True\<rparr>"
        "[FrappeClient_new (PStr ''https://x.example'') (PStr ''t'')]"
        stub_rocket_env stub_rocket_handler "[]" 0
        "stub_rocket_handler\<lparr>rc_client := Some 0, rc_is_connected := True\<rparr>"
        "[RocketChat_new PNone PNone (PStr ''t'') (PStr ''u'') (PStr ''https://x.example'')]"]
  show ?thesis by blast
qed

subsection \<open>Both authentication pairs supplied\<close>

text \<open>
  Claim C6. When the chat adapter's connection data holds \<open>domain\<close> and both complete
  pairs, construction succeeds and takes the token pair: \<open>auth_token\<close> and
  \<open>auth_user_id\<close> are the values of \<open>token\<close> and \<open>user_id\<close>, while \<open>username\<close> and
  \<open>password\<close> stay \<open>None\<close>.
\<close>

theorem both_auth_pairs_token_precedence:
  assumes "map_of args ''domain'' = Some d"
    and "map_of args ''token'' = Some t" and "map_of args ''user_id'' = Some u"
    and "map_of args ''username'' = Some un" and "map_of args ''password'' = Some pw"
  shows "\<exists>g. RocketChatHandler_init nm (Some args) v = (Inr g, v)
           \<and> auth_token g = t \<and> auth_user_id g = u
           \<and> username g = PNone \<and> password g = PNone \<and> rc_domain g = d"
  using assms by (simp add: RocketChatHandler_init_def has_key_def)

theorem both_auth_pairs_token_precedence_witness:
  "\<exists>g. RocketChatHandler_init None
          (Some [(''username'', PStr ''alice''), (''password'', PStr ''secret''),
                 (''domain'', PStr ''https://x.example''),
                 (''token'', PStr ''t''), (''user_id'', PStr ''u'')]) []
        = (Inr g, [])
      \<and> auth_token g = PStr ''t'' \<and> auth_user_id g = PStr ''u''
      \<and> username g = PNone \<and> password g = PNone \<and> rc_domain g = PStr ''https://x.example''"
  using both_auth_pairs_token_precedence
    [of "[(''username'', PStr ''alice''), (''password'', PStr ''secret''),
          (''domain'', PStr ''https://x.example''),
          (''token'', PStr ''t''), (''user_id'', PStr ''u'')]"
        "PStr ''https://x.example''" "PStr ''t''" "PStr ''u''" "PStr ''alice''" "PStr ''secret''"
        None "[]"]
  by simp

subsection \<open>Connected without a client\<close>

text \<open>
  Claim C10. Every return of the document adapter's \<open>connect\<close> leaves \<open>is_connected\<close>
  true. When \<open>domain\<close> or \<open>access_token\<close> is falsy and no client is stored, \<open>connect\<close>
  constructs nothing, returns \<open>None\<close> and sets \<open>is_connected\<close> all the same: the handler
  is then flagged connected with no client.
\<close>

theorem connect_flags_connected_without_client:
  "(FrappeHandler_connect env h w = (Inr r, h1, w1) \<longrightarrow> is_connected h1)
   \<and> (\<not> (truthy (domain h) \<and> truthy (access_token h)) \<and> client h = None \<longrightarrow>
        FrappeHandler_connect env h w = (Inr None, h\<lparr>is_connected := True\<rparr>, w))"
  by (auto simp: FrappeHandler_connect_def split: if_splits option.splits)

theorem connect_flags_connected_without_client_witness:
  "\<exists>h. FrappeHandler_init None
          (Some [(''access_token'', PStr ''t''), (''domain'', PStr '''')]) [] = (Inr h, [])
       \<and> (\<exists>h1. FrappeHandler_connect stub_frappe_env h [] = (Inr None, h1, [])
              \<and> is_connected h1 \<and> client h1 = None)"
  using connect_flags_connected_without_client
    [of stub_frappe_env
        "\<lparr> name = None, client = None, is_connected = False, access_token = PStr ''t'',
           domain = PStr '''', tables = [''documents''] \<rparr>" "[]" None
        "\<lparr> name = None, client = None, is_connected = True, access_token = PStr ''t'',
           domain = PStr '''', tables = [''documents''] \<rparr>" "[]"]
  by (simp add: FrappeHandler_init_def)

subsection \<open>create_document submits the decoded payload\<close>

text \<open>
  Claim C2. Let \<open>params\<close> hold \<open>doctype\<close> and, under \<open>data\<close>, a string that \<open>json.loads\<close>
  decodes to \<open>obj\<close>. When \<open>connect\<close> yields a client and the client's \<open>post_document\<close>
  returns \<open>new_document\<close>, \<open>create_document\<close> makes exactly one call after \<open>connect\<close>,
  \<open>post_document(doctype, obj)\<close>, and returns one row whose \<open>data\<close> field is
  \<open>json.dumps(new_document)\<close>; decoding that field again gives \<open>new_document\<close>, for a
  \<open>json\<close> module in which \<open>loads\<close> inverts \<open>dumps\<close> on that document.
\<close>

theorem create_document_round_trip:
  assumes "map_of d ''doctype'' = Some doctype"
    and "map_of d ''data'' = Some (PStr s)"
    and "json_loads env (PStr s) = Inr obj"
    and "FrappeHandler_connect env h w = (Inr (Some c), h1, w1)"
    and "post_document env w1 c doctype obj = Inr new_document"
    and "json_loads env (PStr (json_dumps env new_document)) = Inr new_document"
  shows "\<exists>row. FrappeHandler_create_document env h w (PDict d)
             = (Inr [row], h1, w1 @ [Client_post_document c doctype obj])
           \<and> row = [(''doctype'', doctype), (''data'', PStr (json_dumps env new_document))]
           \<and> map_option (json_loads env) (map_of row ''data'') = Some (Inr new_document)"
  using assms
  by (simp add: FrappeHandler_create_document_def document_to_dataframe_row_def)

theorem create_document_round_trip_witness:
  "FrappeHandler_create_document stub_frappe_env stub_frappe_handler []
      (PDict [(''doctype'', PStr ''Expense Claim''),
              (''data'', PStr ''{\"company\": \"CloudE8\"}'')])
    = (Inr [ [(''doctype'', PStr ''Expense Claim''),
             (''data'', PStr ''{\"company\": \"CloudE8\", \"name\": \"EXP-0001\"}'')] ],
       stub_frappe_handler\<lparr>client := Some 0, is_connected := True\<rparr>,
       [FrappeClient_new (PStr ''https://x.example'') (PStr ''t''),
        Client_post_document 0 (PStr ''Expense Claim'') (PDict [(''company'', PStr ''CloudE8'')])])
   \<and> map_option (json_loads stub_frappe_env)
         (map_of [(''doctype'', PStr ''Expense Claim''),
                  (''data'', PStr ''{\"company\": \"CloudE8\", \"name\": \"EXP-0001\"}'')]
            ''data'')
    = Some (Inr (PDict [(''company'', PStr ''CloudE8''), (''name'', PStr ''EXP-0001'')]))"
proof -
  have l: "json_loads stub_frappe_env (PStr ''{\"company\": \"CloudE8\"}'')
             = Inr (PDict [(''company'', PStr ''CloudE8'')])"
    by (simp add: stub_frappe_env_def stub_json_loads_def)
  have p: "post_document stub_frappe_env
             [FrappeClient_new (PStr ''https://x.example'') (PStr ''t'')] 0
             (PStr ''Expense Claim'') (PDict [(''company'', PStr ''CloudE8'')])
           = Inr (PDict [(''company'', PStr ''CloudE8''), (''name'', PStr ''EXP-0001'')])"
    by (simp add: stub_frappe_env_def)
  have dmp: "json_dumps stub_frappe_env
               (PDict [(''company'', PStr ''CloudE8''), (''name'', PStr ''EXP-0001'')])
             = ''{\"company\": \"CloudE8\", \"name\": \"EXP-0001\"}''"
    by (simp add: stub_frappe_env_def stub_json_dumps_def)
  have rt: "json_loads stub_frappe_env (PStr (json_dumps stub_frappe_env
               (PDict [(''company'', PStr ''CloudE8''), (''name'', PStr ''EXP-0001'')])))
             = Inr (PDict [(''company'', PStr ''CloudE8''), (''name'', PStr ''EXP-0001'')])"
    unfolding dmp by (simp add: stub_frappe_env_def stub_json_loads_def)
  have d1: "map_of [(''doctype'', PStr ''Expense Claim''),
              (''data'', PStr ''{\"company\": \"CloudE8\"}'')] ''doctype''
            = Some (PStr ''Expense Claim'')" by simp
  have d2: "map_of [(''doctype'', PStr ''Expense Claim''),
              (''data'', PStr ''{\"company\": \"CloudE8\"}'')] ''data''
            = Some (PStr ''{\"company\": \"CloudE8\"}'')" by simp
  from create_document_round_trip [OF d1 d2 l stub_connect p rt]
  show ?thesis unfolding dmp by simp
qed

subsection \<open>The shape of a row\<close>

text \<open>
  Claim C9. Whenever \<open>get_document\<close>, \<open>get_documents\<close> or \<open>create_document\<close> returns a
  table, each of its rows has exactly the two fields \<open>doctype\<close>, holding
  \<open>params['doctype']\<close>, and \<open>data\<close>, holding \<open>json.dumps\<close> of the whole document the
  client returned, one row per returned document and in the client's order.
\<close>

theorem rows_are_doctype_and_data:
  "(FrappeHandler_get_document env h w params = (Inr df1, h1, w1) \<longrightarrow>
      (\<exists>doctype c nm w0 document.
          subscript params ''doctype'' = Inr doctype
        \<and> w1 = w0 @ [Client_get_document c doctype nm]
        \<and> get_document env w0 c doctype nm = Inr document
        \<and> df1 = [ [(''doctype'', doctype), (''data'', PStr (json_dumps env document))] ]))
   \<and> (FrappeHandler_get_documents env h w params = (Inr df2, h2, w2) \<longrightarrow>
      (\<exists>doctype c limit filters w0 documents.
          subscript params ''doctype'' = Inr doctype
        \<and> w2 = w0 @ [Client_get_documents c doctype limit filters]
        \<and> get_documents env w0 c doctype limit filters = Inr documents
        \<and> df2 = map (\<lambda>document.
                   [(''doctype'', doctype), (''data'', PStr (json_dumps env document))])
                 documents))
   \<and> (FrappeHandler_create_document env h w params = (Inr df3, h3, w3) \<longrightarrow>
      (\<exists>doctype c obj w0 new_document.
          subscript params ''doctype'' = Inr doctype
        \<and> w3 = w0 @ [Client_post_document c doctype obj]
        \<and> post_document env w0 c doctype obj = Inr new_document
        \<and> df3 = [ [(''doctype'', doctype), (''data'', PStr (json_dumps env new_document))] ]))"
proof (intro conjI impI)
  assume "FrappeHandler_get_document env h w params = (Inr df1, h1, w1)"
  then show "\<exists>doctype c nm w0 document.
          subscript params ''doctype'' = Inr doctype
        \<and> w1 = w0 @ [Client_get_document c doctype nm]
        \<and> get_document env w0 c doctype nm = Inr document
        \<and> df1 = [ [(''doctype'', doctype), (''data'', PStr (json_dumps env document))] ]"
    by (cases "FrappeHandler_connect env h w")
       (auto simp: FrappeHandler_get_document_def document_to_dataframe_row_def
             split: sum.splits option.splits)
next
  assume "FrappeHandler_get_documents env h w params = (Inr df2, h2, w2)"
  then show "\<exists>doctype c limit filters w0 documents.
          subscript params ''doctype'' = Inr doctype
        \<and> w2 = w0 @ [Client_get_documents c doctype limit filters]
        \<and> get_documents env w0 c doctype limit filters = Inr documents
        \<and> df2 = map (\<lambda>document.
                   [(''doctype'', doctype), (''data'', PStr (json_dumps env document))])
                 documents"
    by (cases "FrappeHandler_connect env h w")
       (auto simp: FrappeHandler_get_documents_def document_to_dataframe_row_def
             split: sum.splits option.splits)
next
  assume "FrappeHandler_create_document env h w params = (Inr df3, h3, w3)"
  then show "\<exists>doctype c obj w0 new_document.
          subscript params ''doctype'' = Inr doctype
        \<and> w3 = w0 @ [Client_post_document c doctype obj]
        \<and> post_document env w0 c doctype obj = Inr new_document
        \<and> df3 = [ [(''doctype'', doctype), (''data'', PStr (json_dumps env new_document))] ]"
    by (cases "FrappeHandler_connect env h w")
       (auto simp: FrappeHandler_create_document_def document_to_dataframe_row_def
             split: sum.splits option.splits)
qed


theorem rows_are_doctype_and_data_witness:
  "FrappeHandler_get_document stub_frappe_env stub_frappe_handler []
      (PDict [(''doctype'', PStr ''Expense Claim''), (''name'', PStr ''EXP-0001''),
              (''data'', PStr ''{\"company\": \"CloudE8\"}''), (''limit'', PInt 2)])
    = (Inr [ [(''doctype'', PStr ''Expense Claim''),
             (''data'', PStr ''{\"company\": \"CloudE8\", \"name\": \"EXP-0001\"}'')] ],
       stub_frappe_handler\<lparr>client := Some 0, is_connected := True\<rparr>,
       [FrappeClient_new (PStr ''https://x.example'') (PStr ''t''),
        Client_get_document 0 (PStr ''Expense Claim'') (PStr ''EXP-0001'')])
   \<and> FrappeHandler_get_documents stub_frappe_env stub_frappe_handler []
      (PDict [(''doctype'', PStr ''Expense Claim''), (''name'', PStr ''EXP-0001''),
              (''data'', PStr ''{\"company\": \"CloudE8\"}''), (''limit'', PInt 2)])
    = (Inr [ [(''doctype'', PStr ''Expense Claim''),
             (''data'', PStr ''{\"company\": \"CloudE8\"}'')],
            [(''doctype'', PStr ''Expense Claim''),
             (''data'', PStr ''{\"company\": \"CloudE8\", \"name\": \"EXP-0001\"}'')] ],
       stub_frappe_handler\<lparr>client := Some 0, is_connected := True\<rparr>,
       [FrappeClient_new (PStr ''https://x.example'') (PStr ''t''),
        Client_get_documents 0 (PStr ''Expense Claim'') (PInt 2) PNone])
   \<and> FrappeHandler_create_document stub_frappe_env stub_frappe_handler []
      (PDict [(''doctype'', PStr ''Expense Claim''), (''name'', PStr ''EXP-0001''),
              (''data'', PStr ''{\"company\": \"CloudE8\"}''), (''limit'', PInt 2)])
    = (Inr [ [(''doctype'', PStr ''Expense Claim''),
             (''data'', PStr ''{\"company\": \"CloudE8\", \"name\": \"EXP-0001\"}'')] ],
       stub_frappe_handler\<lparr>client := Some 0, is_connected := True\<rparr>,
       [FrappeClient_new (PStr ''https://x.example'') (PStr ''t''),
        Client_post_document 0 (PStr ''Expense Claim'')
          (PDict [(''company'', PStr ''CloudE8'')])])"
proof -
  let ?params = "PDict [(''doctype'', PStr ''Expense Claim''), (''name'', PStr ''EXP-0001''),
              (''data'', PStr ''{\"company\": \"CloudE8\"}''), (''limit'', PInt 2)]"
  let ?h1 = "stub_frappe_handler\<lparr>client := Some 0, is_connected := True\<rparr>"
  let ?new = "FrappeClient_new (PStr ''https://x.example'') (PStr ''t'')"
  have c: "FrappeHandler_connect stub_frappe_env stub_frappe_handler [] = (Inr (Some 0), ?h1, [?new])"
    by (simp add: FrappeHandler_connect_def stub_frappe_env_def stub_frappe_handler_def)
  have env:
    "get_document stub_frappe_env [?new] 0 (PStr ''Expense Claim'') (PStr ''EXP-0001'')
       = Inr (PDict [(''company'', PStr ''CloudE8''), (''name'', PStr ''EXP-0001'')])"
    "get_documents stub_frappe_env [?new] 0 (PStr ''Expense Claim'') (PInt 2) PNone
       = Inr [PDict [(''company'', PStr ''CloudE8'')],
              PDict [(''company'', PStr ''CloudE8''), (''name'', PStr ''EXP-0001'')] ]"
    "post_document stub_frappe_env [?new] 0 (PStr ''Expense Claim'')
         (PDict [(''company'', PStr ''CloudE8'')])
       = Inr (PDict [(''company'', PStr ''CloudE8''), (''name'', PStr ''EXP-0001'')])"
    "json_loads stub_frappe_env (PStr ''{\"company\": \"CloudE8\"}'')
       = Inr (PDict [(''company'', PStr ''CloudE8'')])"
    "json_dumps stub_frappe_env (PDict [(''company'', PStr ''CloudE8'')])
       = ''{\"company\": \"CloudE8\"}''"
    "json_dumps stub_frappe_env
         (PDict [(''company'', PStr ''CloudE8''), (''name'', PStr ''EXP-0001'')])
       = ''{\"company\": \"CloudE8\", \"name\": \"EXP-0001\"}''"
    by (simp_all add: stub_frappe_env_def stub_json_loads_def stub_json_dumps_def)
  have e1: "FrappeHandler_get_document stub_frappe_env stub_frappe_handler [] ?params
    = (Inr [ [(''doctype'', PStr ''Expense Claim''),
             (''data'', PStr ''{\"company\": \"CloudE8\", \"name\": \"EXP-0001\"}'')] ],
       ?h1, [?new, Client_get_document 0 (PStr ''Expense Claim'') (PStr ''EXP-0001'')])"
    by (simp add: FrappeHandler_get_document_def c env document_to_dataframe_row_def)
  have e2: "FrappeHandler_get_documents stub_frappe_env stub_frappe_handler [] ?params
    = (Inr [ [(''doctype'', PStr ''Expense Claim''),
             (''data'', PStr ''{\"company\": \"CloudE8\"}'')],
            [(''doctype'', PStr ''Expense Claim''),
             (''data'', PStr ''{\"company\": \"CloudE8\", \"name\": \"EXP-0001\"}'')] ],
       ?h1, [?new, Client_get_documents 0 (PStr ''Expense Claim'') (PInt 2) PNone])"
    by (simp add: FrappeHandler_get_documents_def c env document_to_dataframe_row_def
          param_or_None_def has_key_def)
  have e3: "FrappeHandler_create_document stub_frappe_env stub_frappe_handler [] ?params
    = (Inr [ [(''doctype'', PStr ''Expense Claim''),
             (''data'', PStr ''{\"company\": \"CloudE8\", \"name\": \"EXP-0001\"}'')] ],
       ?h1, [?new, Client_post_document 0 (PStr ''Expense Claim'')
          (PDict [(''company'', PStr ''CloudE8'')])])"
    by (simp add: FrappeHandler_create_document_def c env document_to_dataframe_row_def)
  from rows_are_doctype_and_data
         [where env = stub_frappe_env and h = stub_frappe_handler and w = "[]"
            and params = ?params
            and ?df1.0 = "[ [(''doctype'', PStr ''Expense Claim''),
               (''data'', PStr ''{\"company\": \"CloudE8\", \"name\": \"EXP-0001\"}'')] ]"
            and ?h1.0 = ?h1
            and ?w1.0 = "[?new, Client_get_document 0 (PStr ''Expense Claim'') (PStr ''EXP-0001'')]"
            and ?df2.0 = "[ [(''doctype'', PStr ''Expense Claim''),
               (''data'', PStr ''{\"company\": \"CloudE8\"}'')],
              [(''doctype'', PStr ''Expense Claim''),
               (''data'', PStr ''{\"company\": \"CloudE8\", \"name\": \"EXP-0001\"}'')] ]"
            and ?h2.0 = ?h1
            and ?w2.0 = "[?new, Client_get_documents 0 (PStr ''Expense Claim'') (PInt 2) PNone]"
            and ?df3.0 = "[ [(''doctype'', PStr ''Expense Claim''),
               (''data'', PStr ''{\"company\": \"CloudE8\", \"name\": \"EXP-0001\"}'')] ]"
            and ?h3.0 = ?h1
            and ?w3.0 = "[?new, Client_post_document 0 (PStr ''Expense Claim'')
                (PDict [(''company'', PStr ''CloudE8'')])]"]
       e1 e2 e3
  show ?thesis by blast
qed

subsection \<open>call_api and the response status\<close>

text \<open>
  Claim C8. Let the method name resolve on the client and the call return a response whose
  \<open>raise_for_status\<close> raises whenever \<open>ok\<close> is false (the contract of the response
  class). Then with \<open>ok\<close> false \<open>call_api\<close> raises the error of \<open>raise_for_status\<close>, so
  no value is returned, and with \<open>ok\<close> true it returns what \<open>json()\<close> gives.
\<close>

theorem call_api_raises_on_failure_status:
  assumes "RocketChatHandler_connect env h w = (Inr c, h1, w1)"
    and "resolves env m"
    and "call_method env w1 c m args kwargs = Inr resp"
    and "\<not> ok resp \<longrightarrow> raise_for_status resp \<noteq> None"
  shows "(\<not> ok resp \<longrightarrow>
            (\<exists>e. raise_for_status resp = Some e
               \<and> call_api env h w (Some m) args kwargs
                   = (Inl e, h1, w1 @ [Client_call c m args kwargs])))
         \<and> (ok resp \<longrightarrow>
              call_api env h w (Some m) args kwargs
                = (json resp, h1, w1 @ [Client_call c m args kwargs]))"
  using assms by (auto simp: call_api_def)

theorem call_api_raises_on_failure_status_witness:
  "call_api stub_rocket_env stub_rocket_handler [] (Some ''channels_list'') [] []
     = (Inl (OtherError ''HTTPError''),
        stub_rocket_handler\<lparr>rc_client := Some 0, rc_is_connected := True\<rparr>,
        [RocketChat_new PNone PNone (PStr ''t'') (PStr ''u'') (PStr ''https://x.example''),
         Client_call 0 ''channels_list'' [] [] ])
   \<and> call_api stub_rocket_env stub_rocket_handler [] (Some ''me'') [] []
     = (Inr (PDict [(''username'', PStr ''bot'')]),
        stub_rocket_handler\<lparr>rc_client := Some 0, rc_is_connected := True\<rparr>,
        [RocketChat_new PNone PNone (PStr ''t'') (PStr ''u'') (PStr ''https://x.example''),
         Client_call 0 ''me'' [] [] ])"
proof -
  let ?w1 = "[RocketChat_new PNone PNone (PStr ''t'') (PStr ''u'') (PStr ''https://x.example'')]"
  let ?bad = "\<lparr> ok = False, raise_for_status = Some (OtherError ''HTTPError''),
                 json = Inr (PDict [(''success'', PBool False)]) \<rparr>"
  let ?good = "\<lparr> ok = True, raise_for_status = None,
                  json = Inr (PDict [(''username'', PStr ''bot'')]) \<rparr>"
  have r1: "resolves stub_rocket_env ''channels_list''"
    and r2: "resolves stub_rocket_env ''me''"
    by (simp_all add: stub_rocket_env_def)
  have m1: "call_method stub_rocket_env ?w1 0 ''channels_list'' [] [] = Inr ?bad"
    and m2: "call_method stub_rocket_env ?w1 0 ''me'' [] [] = Inr ?good"
    by (simp_all add: stub_rocket_env_def)
  have c1: "\<not> ok ?bad \<longrightarrow> raise_for_status ?bad \<noteq> None"
    and c2: "\<not> ok ?good \<longrightarrow> raise_for_status ?good \<noteq> None"
    by simp_all
  from call_api_raises_on_failure_status [OF stub_rocket_connect r1 m1 c1]
       call_api_raises_on_failure_status [OF stub_rocket_connect r2 m2 c2]
  show ?thesis by simp
qed

subsection \<open>claim_expense\<close>

text \<open>
  Claim C7 says \<open>claim_expense(data)\<close> forwards \<open>data\<close> as the \<open>params\<close> of
  \<open>create_document\<close>. The code passes the entries of \<open>data\<close> as keyword arguments: on the
  payload its own tool description asks for (\<open>doctype\<close> and \<open>data\<close>) it raises
  \<open>TypeError\<close> with no call made, whereas \<open>call_frappe_api\<close> given that payload as
  \<open>params\<close> creates the document.
\<close>

theorem claim_expense_rejects_documented_payload:
  "claim_expense stub_frappe_env stub_frappe_handler []
      [(''doctype'', PStr ''Expense Claim''), (''data'', PStr ''{\"company\": \"CloudE8\"}'')]
     = (Inl (TypeError ''call_frappe_api() got an unexpected keyword argument doctype''),
        stub_frappe_handler, [])
   \<and> call_frappe_api stub_frappe_env stub_frappe_handler [] (Some ''create_document'')
        (PDict [(''doctype'', PStr ''Expense Claim''),
                (''data'', PStr ''{\"company\": \"CloudE8\"}'')])
     = (Inr [ [(''doctype'', PStr ''Expense Claim''),
              (''data'', PStr ''{\"company\": \"CloudE8\", \"name\": \"EXP-0001\"}'')] ],
        stub_frappe_handler\<lparr>client := Some 0, is_connected := True\<rparr>,
        [FrappeClient_new (PStr ''https://x.example'') (PStr ''t''),
         Client_post_document 0 (PStr ''Expense Claim'')
           (PDict [(''company'', PStr ''CloudE8'')])])"
proof
  show "claim_expense stub_frappe_env stub_frappe_handler []
      [(''doctype'', PStr ''Expense Claim''), (''data'', PStr ''{\"company\": \"CloudE8\"}'')]
     = (Inl (TypeError ''call_frappe_api() got an unexpected keyword argument doctype''),
        stub_frappe_handler, [])"
    by (simp add: claim_expense_def)
next
  have c: "FrappeHandler_connect stub_frappe_env stub_frappe_handler []
      = (Inr (Some 0), stub_frappe_handler\<lparr>client := Some 0, is_connected := True\<rparr>,
         [FrappeClient_new (PStr ''https://x.example'') (PStr ''t'')])"
    by (simp add: FrappeHandler_connect_def stub_frappe_env_def stub_frappe_handler_def)
  have l: "json_loads stub_frappe_env (PStr ''{\"company\": \"CloudE8\"}'')
             = Inr (PDict [(''company'', PStr ''CloudE8'')])"
    by (simp add: stub_frappe_env_def stub_json_loads_def)
  have p: "post_document stub_frappe_env
             [FrappeClient_new (PStr ''https://x.example'') (PStr ''t'')] 0
             (PStr ''Expense Claim'') (PDict [(''company'', PStr ''CloudE8'')])
           = Inr (PDict [(''company'', PStr ''CloudE8''), (''name'', PStr ''EXP-0001'')])"
    by (simp add: stub_frappe_env_def)
  have dmp: "json_dumps stub_frappe_env
               (PDict [(''company'', PStr ''CloudE8''), (''name'', PStr ''EXP-0001'')])
             = ''{\"company\": \"CloudE8\", \"name\": \"EXP-0001\"}''"
    by (simp add: stub_frappe_env_def stub_json_dumps_def)
  show "call_frappe_api stub_frappe_env stub_frappe_handler [] (Some ''create_document'')
        (PDict [(''doctype'', PStr ''Expense Claim''),
                (''data'', PStr ''{\"company\": \"CloudE8\"}'')])
     = (Inr [ [(''doctype'', PStr ''Expense Claim''),
              (''data'', PStr ''{\"company\": \"CloudE8\", \"name\": \"EXP-0001\"}'')] ],
        stub_frappe_handler\<lparr>client := Some 0, is_connected := True\<rparr>,
        [FrappeClient_new (PStr ''https://x.example'') (PStr ''t''),
         Client_post_document 0 (PStr ''Expense Claim'')
           (PDict [(''company'', PStr ''CloudE8'')])])"
    by (simp add: call_frappe_api_def FrappeHandler_create_document_def c l p dmp
          document_to_dataframe_row_def)
qed

end
